theory Spec2Isabelle
  imports Complex_Main "HOL-Library.Word" "HOL-Library.Sublist"
begin

section \<open>JavaScript strings\<close>

text \<open>
  A JavaScript string is a sequence of 16-bit code units. The string methods that
  \<^verbatim>\<open>TagsDialog.tsx\<close> calls are modelled after their ECMAScript definitions:
  \<^verbatim>\<open>replace\<close> with a string pattern, \<^verbatim>\<open>includes\<close> and \<^verbatim>\<open>trim\<close>.
  \<^verbatim>\<open>toLowerCase\<close> depends on the Unicode case tables of the runtime; the component
  is modelled for any such function (the parameter \<open>lower\<close> below), and
  \<open>toLowerCase_ascii\<close> is what it computes on strings of ASCII code units.
\<close>

type_synonym jsstring = "16 word list"

definition utf16 :: "string \<Rightarrow> jsstring" where
  \<comment> \<open>the code units of an ASCII literal of the source\<close>
  "utf16 s = map of_char s"

fun js_indexOf :: "jsstring \<Rightarrow> jsstring \<Rightarrow> nat option" where
  \<comment> \<open>StringIndexOf(s, pat, 0): the least position where \<open>pat\<close> occurs; \<open>None\<close> is not found\<close>
  "js_indexOf [] pat = (if pat = [] then Some 0 else None)"
| "js_indexOf (c # cs) pat =
     (if prefix pat (c # cs) then Some 0 else map_option Suc (js_indexOf cs pat))"

definition js_includes :: "jsstring \<Rightarrow> jsstring \<Rightarrow> bool" where
  \<comment> \<open>\<^verbatim>\<open>s.includes(pat)\<close>\<close>
  "js_includes s pat = (js_indexOf s pat \<noteq> None)"

definition js_replace :: "jsstring \<Rightarrow> jsstring \<Rightarrow> jsstring \<Rightarrow> jsstring" where
  \<comment> \<open>\<^verbatim>\<open>s.replace(pat, rep)\<close> for a string \<open>pat\<close> and a replacement \<open>rep\<close> without
      \<^verbatim>\<open>$\<close> patterns (the source passes the empty string)\<close>
  "js_replace s pat rep =
     (case js_indexOf s pat of
        None \<Rightarrow> s
      | Some pos \<Rightarrow> take pos s @ rep @ drop (pos + length pat) s)"

definition isWhiteSpace :: "16 word \<Rightarrow> bool" where
  \<comment> \<open>the WhiteSpace and LineTerminator code points that \<^verbatim>\<open>trim\<close> strips\<close>
  "isWhiteSpace c =
     (c \<in> set [0x0009, 0x000A, 0x000B, 0x000C, 0x000D, 0x0020, 0x00A0, 0x1680,
               0x2028, 0x2029, 0x202F, 0x205F, 0x3000, 0xFEFF]
      \<or> (0x2000 \<le> c \<and> c \<le> 0x200A))"

definition js_trim :: "jsstring \<Rightarrow> jsstring" where
  \<comment> \<open>\<^verbatim>\<open>s.trim()\<close>\<close>
  "js_trim s = rev (dropWhile isWhiteSpace (rev (dropWhile isWhiteSpace s)))"

definition toLowerCase_ascii :: "jsstring \<Rightarrow> jsstring" where
  \<comment> \<open>\<^verbatim>\<open>s.toLowerCase()\<close> on ASCII code units: A-Z become a-z\<close>
  "toLowerCase_ascii s = map (\<lambda>c. if 0x41 \<le> c \<and> c \<le> 0x5A then c + 0x20 else c) s"

section \<open>The tags dialog\<close>

text \<open>\<^verbatim>\<open>interface TagItem { name: string; url: string }\<close>\<close>

record TagItem =
  name :: jsstring
  url :: jsstring

text \<open>What \<^verbatim>\<open>fetch('/tags.json')\<close> and \<^verbatim>\<open>response.json()\<close> can yield.\<close>

datatype js_error = JsError jsstring

datatype json_outcome =
    JsonRejected js_error
  | JsonResolved "TagItem list"

datatype fetch_outcome =
    FetchRejected js_error
  | ResponseNotOk
  | ResponseOk json_outcome
    \<comment> \<open>\<^verbatim>\<open>response.ok\<close> is false; or it is true, with what \<^verbatim>\<open>response.json()\<close> settles to\<close>

datatype diagnostic =
    Failed_to_load_tags
  | Error_loading_tags js_error

text \<open>
  The five \<^verbatim>\<open>useState\<close> cells of the component, and the two effects on the outside:
  the lines written by \<^verbatim>\<open>console.error\<close> and the calls of the \<^verbatim>\<open>onTagSelect\<close> prop,
  both in the order they happen.
\<close>

record state =
  tags :: "TagItem list"
  filteredTags :: "TagItem list"
  searchTerm :: jsstring
  isOpen :: bool
  isLoading :: bool
  console :: "diagnostic list"
  onTagSelect :: "(jsstring \<times> jsstring) list"

definition initial :: state where
  "initial = \<lparr>tags = [], filteredTags = [], searchTerm = [], isOpen = False,
     isLoading = False, console = [], onTagSelect = []\<rparr>"

subsection \<open>Loading the tags\<close>

definition loadTags_begin :: "state \<Rightarrow> state" where
  \<comment> \<open>\<^verbatim>\<open>setIsLoading(true)\<close>, up to the first \<^verbatim>\<open>await\<close>\<close>
  "loadTags_begin s = s\<lparr>isLoading := True\<rparr>"

definition loadTags_try :: "fetch_outcome \<Rightarrow> state \<Rightarrow> js_error + state" where
  \<comment> \<open>the \<^verbatim>\<open>try\<close> block; \<open>Inl\<close> is a throw, which happens before any state is written\<close>
  "loadTags_try r s =
     (case r of
        FetchRejected e \<Rightarrow> Inl e
      | ResponseOk body \<Rightarrow>
          (case body of
             JsonRejected e \<Rightarrow> Inl e
           | JsonResolved tagsData \<Rightarrow> Inr (s\<lparr>tags := tagsData, filteredTags := tagsData\<rparr>))
      | ResponseNotOk \<Rightarrow> Inr (s\<lparr>console := console s @ [Failed_to_load_tags]\<rparr>))"

definition loadTags_catch :: "js_error \<Rightarrow> state \<Rightarrow> state" where
  "loadTags_catch e s = s\<lparr>console := console s @ [Error_loading_tags e]\<rparr>"

definition loadTags_finally :: "state \<Rightarrow> state" where
  "loadTags_finally s = s\<lparr>isLoading := False\<rparr>"

definition loadTags_settle :: "fetch_outcome \<Rightarrow> state \<Rightarrow> js_error + state" where
  \<comment> \<open>the rest of \<^verbatim>\<open>loadTags\<close> once the fetch has settled, on the state of that moment;
      \<open>Inl\<close> would be an exception leaving \<^verbatim>\<open>loadTags\<close>\<close>
  "loadTags_settle r s =
     (case loadTags_try r s of
        Inl e \<Rightarrow> Inr (loadTags_finally (loadTags_catch e s))
      | Inr s' \<Rightarrow> Inr (loadTags_finally s'))"

definition loadTags :: "fetch_outcome \<Rightarrow> state \<Rightarrow> js_error + state" where
  \<comment> \<open>a whole run of \<^verbatim>\<open>loadTags\<close> with nothing else happening in between\<close>
  "loadTags r s = loadTags_settle r (loadTags_begin s)"

definition load_failed :: "fetch_outcome \<Rightarrow> bool" where
  \<comment> \<open>the fetch throws, the response is not OK, or decoding an OK response throws\<close>
  "load_failed r =
     (case r of
        FetchRejected e \<Rightarrow> True
      | ResponseNotOk \<Rightarrow> True
      | ResponseOk body \<Rightarrow> (case body of JsonRejected e \<Rightarrow> True | JsonResolved d \<Rightarrow> False))"

subsection \<open>Filtering\<close>

definition visibleSet :: "(jsstring \<Rightarrow> jsstring) \<Rightarrow> TagItem list \<Rightarrow> jsstring \<Rightarrow> TagItem list" where
  \<comment> \<open>what the filter effect passes to \<^verbatim>\<open>setFilteredTags\<close>\<close>
  "visibleSet lower c q =
     (if js_trim q = [] then c
      else filter (\<lambda>tag. js_includes (lower (name tag)) (lower q)) c)"

definition filterEffect :: "(jsstring \<Rightarrow> jsstring) \<Rightarrow> state \<Rightarrow> state" where
  \<comment> \<open>the effect with dependencies \<^verbatim>\<open>[searchTerm, tags]\<close>\<close>
  "filterEffect lower s = s\<lparr>filteredTags := visibleSet lower (tags s) (searchTerm s)\<rparr>"

subsection \<open>Events\<close>

definition origin :: jsstring where
  "origin = utf16 ''https://bestsimilar.com''"

definition tagPath :: "TagItem \<Rightarrow> jsstring" where
  \<comment> \<open>\<^verbatim>\<open>tag.url.replace('https://bestsimilar.com', '')\<close>\<close>
  "tagPath tag = js_replace (url tag) origin []"

definition handleTagClick :: "TagItem \<Rightarrow> state \<Rightarrow> state" where
  \<comment> \<open>the call of the \<^verbatim>\<open>onTagSelect\<close> prop is recorded; the host's function is taken
      to return\<close>
  "handleTagClick tag s =
     s\<lparr>onTagSelect := onTagSelect s @ [(tagPath tag, name tag)],
       isOpen := False,
       searchTerm := []\<rparr>"

definition setIsOpen :: "bool \<Rightarrow> state \<Rightarrow> state" where
  \<comment> \<open>\<^verbatim>\<open>onOpenChange={setIsOpen}\<close>: the trigger opens, a dismissal closes\<close>
  "setIsOpen b s = s\<lparr>isOpen := b\<rparr>"

definition setSearchTerm :: "jsstring \<Rightarrow> state \<Rightarrow> state" where
  \<comment> \<open>\<^verbatim>\<open>onChange={(e) => setSearchTerm(e.target.value)}\<close>\<close>
  "setSearchTerm v s = s\<lparr>searchTerm := v\<rparr>"

definition clickable :: "state \<Rightarrow> TagItem \<Rightarrow> bool" where
  \<comment> \<open>a badge with \<^verbatim>\<open>onClick={() => handleTagClick(tag)}\<close> is rendered: the dialog is
      open, \<^verbatim>\<open>isLoading\<close> is false and the tag is in \<^verbatim>\<open>filteredTags\<close>\<close>
  "clickable s tag = (isOpen s \<and> \<not> isLoading s \<and> tag \<in> set (filteredTags s))"

section \<open>The styling tokens\<close>

text \<open>
  The custom properties of \<^verbatim>\<open>index.css\<close>, in the order they are declared. A colour is
  a hue and the percentages of saturation and lightness; \<^verbatim>\<open>--radius\<close> is a length
  in \<^verbatim>\<open>rem\<close>.
\<close>

datatype css_value =
    HSL rat rat rat
  | Rem rat

definition root_tokens :: "(string \<times> css_value) list" where
  \<comment> \<open>the block \<^verbatim>\<open>:root\<close>\<close>
  "root_tokens =
    [(''--background'', HSL 0 0 0),
     (''--foreground'', HSL 0 0 100),
     (''--card'', HSL 0 0 6),
     (''--card-foreground'', HSL 0 0 95),
     (''--popover'', HSL 0 0 6),
     (''--popover-foreground'', HSL 0 0 95),
     (''--primary'', HSL 217 91 60),
     (''--primary-foreground'', HSL 0 0 100),
     (''--secondary'', HSL 0 0 12),
     (''--secondary-foreground'', HSL 0 0 85),
     (''--muted'', HSL 0 0 12),
     (''--muted-foreground'', HSL 0 0 60),
     (''--accent'', HSL 0 0 12),
     (''--accent-foreground'', HSL 0 0 85),
     (''--destructive'', HSL 0 84.2 60.2),
     (''--destructive-foreground'', HSL 0 0 98),
     (''--border'', HSL 0 0 20),
     (''--input'', HSL 0 0 20),
     (''--ring'', HSL 217 91 60),
     (''--radius'', Rem 0.75),
     (''--sidebar-background'', HSL 0 0 6),
     (''--sidebar-foreground'', HSL 0 0 85),
     (''--sidebar-primary'', HSL 217 91 60),
     (''--sidebar-primary-foreground'', HSL 0 0 100),
     (''--sidebar-accent'', HSL 0 0 12),
     (''--sidebar-accent-foreground'', HSL 0 0 85),
     (''--sidebar-border'', HSL 0 0 15),
     (''--sidebar-ring'', HSL 217 91 60)]"

definition dark_tokens :: "(string \<times> css_value) list" where
  \<comment> \<open>the block \<^verbatim>\<open>.dark\<close>\<close>
  "dark_tokens =
    [(''--background'', HSL 0 0 0),
     (''--foreground'', HSL 0 0 100),
     (''--card'', HSL 0 0 6),
     (''--card-foreground'', HSL 0 0 95),
     (''--popover'', HSL 0 0 6),
     (''--popover-foreground'', HSL 0 0 95),
     (''--primary'', HSL 217 91 60),
     (''--primary-foreground'', HSL 0 0 100),
     (''--secondary'', HSL 0 0 12),
     (''--secondary-foreground'', HSL 0 0 85),
     (''--muted'', HSL 0 0 12),
     (''--muted-foreground'', HSL 0 0 60),
     (''--accent'', HSL 0 0 12),
     (''--accent-foreground'', HSL 0 0 85),
     (''--destructive'', HSL 0 62.8 30.6),
     (''--destructive-foreground'', HSL 0 0 98),
     (''--border'', HSL 0 0 20),
     (''--input'', HSL 0 0 20),
     (''--ring'', HSL 217 91 60),
     (''--sidebar-background'', HSL 0 0 6),
     (''--sidebar-foreground'', HSL 0 0 85),
     (''--sidebar-primary'', HSL 217 91 60),
     (''--sidebar-primary-foreground'', HSL 0 0 100),
     (''--sidebar-accent'', HSL 0 0 12),
     (''--sidebar-accent-foreground'', HSL 0 0 85),
     (''--sidebar-border'', HSL 0 0 15),
     (''--sidebar-ring'', HSL 217 91 60)]"

definition token_names :: "(string \<times> css_value) list \<Rightarrow> string set" where
  "token_names ts = set (map fst ts)"

definition token_value :: "(string \<times> css_value) list \<Rightarrow> string \<Rightarrow> css_value option" where
  \<comment> \<open>within a block the last declaration of a property is the one that counts\<close>
  "token_value ts n = map_of (rev ts) n"

section \<open>Facts about the string methods\<close>

lemma js_indexOf_Some:
  "js_indexOf s pat = Some i \<Longrightarrow>
     prefix pat (drop i s) \<and> i \<le> length s \<and> (\<forall>j<i. \<not> prefix pat (drop j s))"
proof (induction s arbitrary: i)
  case Nil
  then show ?case by (simp split: if_splits)
next
  case (Cons c cs)
  show ?case
  proof (cases "prefix pat (c # cs)")
    case True
    with Cons.prems show ?thesis by simp
  next
    case False
    with Cons.prems obtain k where k: "js_indexOf cs pat = Some k" "i = Suc k"
      by auto
    from Cons.IH [OF k(1)] have ih: "prefix pat (drop k cs)" "k \<le> length cs"
      "\<forall>j<k. \<not> prefix pat (drop j cs)" by simp_all
    have "\<not> prefix pat (drop j (c # cs))" if "j < Suc k" for j
      using that False ih(3) by (cases j) simp_all
    with ih k show ?thesis by simp
  qed
qed

lemma js_indexOf_None:
  "js_indexOf s pat = None \<Longrightarrow> \<not> prefix pat (drop j s)"
proof (induction s arbitrary: j)
  case Nil
  then show ?case by (simp split: if_splits)
next
  case (Cons c cs)
  then show ?case by (cases j) (auto split: if_splits)
qed

lemma js_indexOf_first:
  assumes "prefix pat (drop i s)" "i \<le> length s" "\<forall>j<i. \<not> prefix pat (drop j s)"
  shows "js_indexOf s pat = Some i"
proof (cases "js_indexOf s pat")
  case None
  from js_indexOf_None [OF None, of i] assms(1) show ?thesis by simp
next
  case (Some k)
  from js_indexOf_Some [OF Some] have k: "prefix pat (drop k s)" "\<forall>j<k. \<not> prefix pat (drop j s)"
    by simp_all
  have "\<not> k < i" using assms(3) k(1) by blast
  moreover have "\<not> i < k" using k(2) assms(1) by blast
  ultimately show ?thesis using Some by simp
qed

lemma js_includes_iff:
  "js_includes s pat \<longleftrightarrow> (\<exists>pre post. s = pre @ pat @ post)"
proof
  assume "js_includes s pat"
  then obtain i where i: "js_indexOf s pat = Some i" by (auto simp: js_includes_def)
  from js_indexOf_Some [OF i] obtain post where "drop i s = pat @ post"
    by (auto simp: prefix_def)
  then have "s = take i s @ pat @ post" by (metis append_take_drop_id)
  then show "\<exists>pre post. s = pre @ pat @ post" by blast
next
  assume "\<exists>pre post. s = pre @ pat @ post"
  then obtain pre post where s: "s = pre @ pat @ post" by blast
  have "prefix pat (drop (length pre) s)" by (simp add: s)
  with js_indexOf_None [of s pat "length pre"] show "js_includes s pat"
    by (auto simp: js_includes_def)
qed

lemma js_replace_first:
  assumes "s = pre @ pat @ post" "\<forall>j<length pre. \<not> prefix pat (drop j s)"
  shows "js_replace s pat rep = pre @ rep @ post"
proof -
  have "prefix pat (drop (length pre) s)" "length pre \<le> length s"
    by (simp_all add: assms(1))
  from js_indexOf_first [OF this assms(2)] show ?thesis
    by (simp add: js_replace_def assms(1))
qed

lemma js_replace_prefix:
  "prefix pat s \<Longrightarrow> js_replace s pat rep = rep @ drop (length pat) s"
  by (cases s) (auto simp: js_replace_def)

lemma js_replace_absent:
  "\<not> js_includes s pat \<Longrightarrow> js_replace s pat rep = s"
  by (simp add: js_includes_def js_replace_def)

lemma js_trim_empty_iff: "js_trim q = [] \<longleftrightarrow> (\<forall>c\<in>set q. isWhiteSpace c)"
proof
  assume "js_trim q = []"
  then have all: "\<forall>c\<in>set (dropWhile isWhiteSpace q). isWhiteSpace c"
    by (simp add: js_trim_def)
  have "dropWhile isWhiteSpace q = []"
  proof (rule ccontr)
    assume ne: "dropWhile isWhiteSpace q \<noteq> []"
    then have "\<not> isWhiteSpace (hd (dropWhile isWhiteSpace q))" by (rule hd_dropWhile)
    moreover from ne have "hd (dropWhile isWhiteSpace q) \<in> set (dropWhile isWhiteSpace q)"
      by (rule hd_in_set)
    ultimately show False using all by blast
  qed
  then show "\<forall>c\<in>set q. isWhiteSpace c" by simp
next
  assume "\<forall>c\<in>set q. isWhiteSpace c"
  then have d: "dropWhile isWhiteSpace q = []" by simp
  show "js_trim q = []" unfolding js_trim_def d by simp
qed

section \<open>Evaluation on literals\<close>

lemmas string_eval = utf16_def origin_def tagPath_def js_replace_def js_includes_def
  js_trim_def isWhiteSpace_def toLowerCase_ascii_def visibleSet_def

lemma letters_not_whitespace:
  "0x41 \<le> d \<Longrightarrow> d \<le> 0x7A \<Longrightarrow> \<not> isWhiteSpace d"
  by (auto simp add: isWhiteSpace_def word_le_nat_alt)

lemma lower_ascii_ws:
  "isWhiteSpace (if 0x41 \<le> c \<and> c \<le> 0x5A then c + 0x20 else c) = isWhiteSpace c"
proof (cases "0x41 \<le> c \<and> c \<le> 0x5A")
  case False
  then show ?thesis by (simp only: if_False)
next
  case True
  have lo: "0x41 \<le> c + 0x20" and hi: "c + 0x20 \<le> 0x7A"
    using True by (simp_all add: word_le_nat_alt unat_word_ariths)
  from lo hi have "\<not> isWhiteSpace (c + 0x20)"
    by (rule letters_not_whitespace)
  moreover have lo': "0x41 \<le> c" and hi': "c \<le> 0x7A"
    using True by (simp_all add: word_le_nat_alt)
  from lo' hi' have "\<not> isWhiteSpace c"
    by (rule letters_not_whitespace)
  ultimately show ?thesis using True by (simp only: if_True simp_thms)
qed

lemma bex_set_map: "(\<exists>u\<in>set (map f s). P u) \<longleftrightarrow> (\<exists>u\<in>set s. P (f u))"
  by simp

lemma toLowerCase_ascii_ws:
  "(\<exists>u\<in>set (toLowerCase_ascii s). isWhiteSpace u) \<longleftrightarrow> (\<exists>u\<in>set s. isWhiteSpace u)"
  unfolding toLowerCase_ascii_def by (simp only: bex_set_map lower_ascii_ws)

lemma whitespace_query_no_match:
  assumes keeps: "\<forall>s. (\<exists>u\<in>set (lower s). isWhiteSpace u) \<longleftrightarrow> (\<exists>u\<in>set s. isWhiteSpace u)"
    and "u \<in> set q" "isWhiteSpace u" "\<forall>v\<in>set n. \<not> isWhiteSpace v"
  shows "\<not> js_includes (lower n) (lower q)"
proof
  assume "js_includes (lower n) (lower q)"
  then obtain pre post where eq: "lower n = pre @ lower q @ post"
    by (auto simp: js_includes_iff)
  from assms(2,3) have "\<exists>u\<in>set q. isWhiteSpace u" by blast
  with keeps have "\<exists>u\<in>set (lower q). isWhiteSpace u" by blast
  then have "\<exists>u\<in>set (lower n). isWhiteSpace u"
    by (auto simp: eq)
  with keeps have "\<exists>u\<in>set n. isWhiteSpace u" by blast
  with assms(4) show False by blast
qed

lemmas state_eval = initial_def setIsOpen_def setSearchTerm_def handleTagClick_def
  clickable_def filterEffect_def loadTags_def loadTags_begin_def loadTags_settle_def
  loadTags_try_def loadTags_catch_def loadTags_finally_def load_failed_def

lemmas token_eval = token_names_def token_value_def root_tokens_def dark_tokens_def

lemma loadTags_settle_failed:
  "load_failed r \<Longrightarrow>
     \<exists>d. loadTags_settle r s = Inr (s\<lparr>console := console s @ [d], isLoading := False\<rparr>)"
  by (cases r)
    (auto simp: load_failed_def loadTags_settle_def loadTags_try_def loadTags_catch_def
      loadTags_finally_def split: json_outcome.splits)

section \<open>The derived path\<close>

text \<open>
  C1, as amended. The path handed to the callback is the url with the origin
  \<^verbatim>\<open>https://bestsimilar.com\<close> removed: a url that starts with the origin yields what
  follows the origin, and a url that does not contain the origin anywhere yields the
  whole url unchanged.
\<close>

theorem tagPath_strips_origin:
  "(url tag = origin @ rest \<longrightarrow> tagPath tag = rest)
   \<and> ((\<nexists>pre post. url tag = pre @ origin @ post) \<longrightarrow> tagPath tag = url tag)"
proof (intro conjI impI)
  assume "url tag = origin @ rest"
  then show "tagPath tag = rest"
    by (simp add: tagPath_def js_replace_prefix)
next
  assume "\<nexists>pre post. url tag = pre @ origin @ post"
  then have "\<not> js_includes (url tag) origin" by (simp add: js_includes_iff)
  then show "tagPath tag = url tag"
    by (simp add: tagPath_def js_replace_absent)
qed

text \<open>
  The theorem at \<^verbatim>\<open>https://bestsimilar.com/tag/action\<close>, which yields
  \<^verbatim>\<open>/tag/action\<close>, and at \<^verbatim>\<open>https://other.com/x\<close>, which stays as it is.
\<close>

theorem tagPath_strips_origin_witness:
  "tagPath \<lparr>name = utf16 ''Action'', url = utf16 ''https://bestsimilar.com/tag/action''\<rparr>
     = utf16 ''/tag/action''
   \<and> tagPath \<lparr>name = utf16 ''Other'', url = utf16 ''https://other.com/x''\<rparr>
     = utf16 ''https://other.com/x''"
proof -
  have starts: "url \<lparr>name = utf16 ''Action'', url = utf16 ''https://bestsimilar.com/tag/action''\<rparr>
      = origin @ utf16 ''/tag/action''"
    by (simp add: string_eval)
  have "\<not> js_includes (url \<lparr>name = utf16 ''Other'', url = utf16 ''https://other.com/x''\<rparr>) origin"
    by (simp add: string_eval)
  then have absent: "\<nexists>pre post.
      url \<lparr>name = utf16 ''Other'', url = utf16 ''https://other.com/x''\<rparr> = pre @ origin @ post"
    by (simp add: js_includes_iff)
  from tagPath_strips_origin
    [of "\<lparr>name = utf16 ''Action'', url = utf16 ''https://bestsimilar.com/tag/action''\<rparr>"
        "utf16 ''/tag/action''"]
    tagPath_strips_origin
    [of "\<lparr>name = utf16 ''Other'', url = utf16 ''https://other.com/x''\<rparr>" "[]"]
    starts absent
  show ?thesis by (simp only: TagItem.simps) blast
qed

text \<open>
  C1 as it was stated, with "does not start with the origin" in place of "does not
  contain it", fails: this url does not start with the origin, and the path derived
  from it is not the url.
\<close>

theorem tagPath_not_prefix_only:
  "\<not> prefix origin (url \<lparr>name = utf16 ''Elsewhere'',
        url = utf16 ''https://other.com/r?u=https://bestsimilar.com/x''\<rparr>)
   \<and> tagPath \<lparr>name = utf16 ''Elsewhere'',
        url = utf16 ''https://other.com/r?u=https://bestsimilar.com/x''\<rparr>
     \<noteq> url \<lparr>name = utf16 ''Elsewhere'',
        url = utf16 ''https://other.com/r?u=https://bestsimilar.com/x''\<rparr>"
  by (simp add: string_eval)

text \<open>
  C8. The path derivation removes the first occurrence of the origin wherever it is
  in the url, and only that one: when the url is \<open>pre\<close>, the origin, \<open>post\<close>, and the
  origin does not occur at an earlier position, the path is \<open>pre\<close> followed by
  \<open>post\<close>. The url \<^verbatim>\<open>https://other.com/r?u=https://bestsimilar.com/x\<close> does not begin
  with the origin, and the callback receives \<^verbatim>\<open>https://other.com/r?u=/x\<close>, which is
  not the url.
\<close>

theorem tagPath_removes_first_occurrence:
  "(url tag = pre @ origin @ post \<and> (\<forall>j<length pre. \<not> prefix origin (drop j (url tag)))
      \<longrightarrow> tagPath tag = pre @ post)
   \<and> \<not> prefix origin (utf16 ''https://other.com/r?u=https://bestsimilar.com/x'')
   \<and> tagPath \<lparr>name = utf16 ''Elsewhere'',
        url = utf16 ''https://other.com/r?u=https://bestsimilar.com/x''\<rparr>
     = utf16 ''https://other.com/r?u=/x''
   \<and> utf16 ''https://other.com/r?u=/x'' \<noteq> utf16 ''https://other.com/r?u=https://bestsimilar.com/x''"
proof (intro conjI impI)
  assume "url tag = pre @ origin @ post \<and> (\<forall>j<length pre. \<not> prefix origin (drop j (url tag)))"
  then have eq: "url tag = pre @ origin @ post"
    and first: "\<forall>j<length pre. \<not> prefix origin (drop j (url tag))" by blast+
  have "js_replace (url tag) origin [] = pre @ [] @ post"
    using eq first by (rule js_replace_first)
  then show "tagPath tag = pre @ post" by (simp add: tagPath_def)
qed (simp_all add: string_eval)

text \<open>
  The theorem at a url that holds the origin twice, neither time at the start: the
  second occurrence stays.
\<close>

theorem tagPath_removes_first_occurrence_witness:
  "tagPath \<lparr>name = utf16 ''Twice'',
      url = utf16 ''/go?to=https://bestsimilar.com/tag/a&from=https://bestsimilar.com''\<rparr>
   = utf16 ''/go?to=/tag/a&from=https://bestsimilar.com''"
proof -
  have "js_indexOf (utf16 ''/go?to=https://bestsimilar.com/tag/a&from=https://bestsimilar.com'') origin
      = Some (length (utf16 ''/go?to=''))"
    by (simp add: string_eval)
  from js_indexOf_Some [OF this]
  have first: "\<forall>j<length (utf16 ''/go?to='').
      \<not> prefix origin (drop j (url \<lparr>name = utf16 ''Twice'',
        url = utf16 ''/go?to=https://bestsimilar.com/tag/a&from=https://bestsimilar.com''\<rparr>))"
    by simp
  have split: "url \<lparr>name = utf16 ''Twice'',
        url = utf16 ''/go?to=https://bestsimilar.com/tag/a&from=https://bestsimilar.com''\<rparr>
      = utf16 ''/go?to='' @ origin @ utf16 ''/tag/a&from=https://bestsimilar.com''"
    by (simp add: string_eval)
  have "tagPath \<lparr>name = utf16 ''Twice'',
      url = utf16 ''/go?to=https://bestsimilar.com/tag/a&from=https://bestsimilar.com''\<rparr>
    = utf16 ''/go?to='' @ utf16 ''/tag/a&from=https://bestsimilar.com''"
    using tagPath_removes_first_occurrence
      [of "\<lparr>name = utf16 ''Twice'',
        url = utf16 ''/go?to=https://bestsimilar.com/tag/a&from=https://bestsimilar.com''\<rparr>"
        "utf16 ''/go?to=''" "utf16 ''/tag/a&from=https://bestsimilar.com''"]
      first split by blast
  then show ?thesis by (simp add: utf16_def)
qed

section \<open>The visible set\<close>

text \<open>
  C2. For every catalog \<open>c\<close> and query \<open>q\<close>, the visible set is \<open>c\<close> unchanged when
  \<open>q\<close> is empty or holds white space only, and otherwise it is exactly the records
  of \<open>c\<close> whose name, lowercased, contains \<open>q\<close> lowercased as a substring, in the
  order of \<open>c\<close>; an empty catalog yields an empty visible set for every \<open>q\<close>.
\<close>

theorem visibleSet_filters_by_name:
  "visibleSet lower c q =
     (if \<forall>u\<in>set q. isWhiteSpace u then c
      else filter (\<lambda>tag. \<exists>pre post. lower (name tag) = pre @ lower q @ post) c)
   \<and> visibleSet lower [] q = []"
  by (simp add: visibleSet_def js_trim_empty_iff js_includes_iff)

text \<open>
  The theorem on the catalog Action, Drama: the query \<^verbatim>\<open>dra\<close> keeps Drama only, and the
  query of three blanks keeps the catalog.
\<close>

theorem visibleSet_filters_by_name_witness:
  "filter (\<lambda>tag. \<exists>pre post.
       toLowerCase_ascii (name tag) = pre @ toLowerCase_ascii (utf16 ''dra'') @ post)
     [\<lparr>name = utf16 ''Action'', url = utf16 ''https://bestsimilar.com/tag/action''\<rparr>,
      \<lparr>name = utf16 ''Drama'', url = utf16 ''https://bestsimilar.com/tag/drama''\<rparr>]
   = [\<lparr>name = utf16 ''Drama'', url = utf16 ''https://bestsimilar.com/tag/drama''\<rparr>]
   \<and> visibleSet toLowerCase_ascii
     [\<lparr>name = utf16 ''Action'', url = utf16 ''https://bestsimilar.com/tag/action''\<rparr>,
      \<lparr>name = utf16 ''Drama'', url = utf16 ''https://bestsimilar.com/tag/drama''\<rparr>]
     (utf16 ''   '')
   = [\<lparr>name = utf16 ''Action'', url = utf16 ''https://bestsimilar.com/tag/action''\<rparr>,
      \<lparr>name = utf16 ''Drama'', url = utf16 ''https://bestsimilar.com/tag/drama''\<rparr>]"
proof -
  have letters: "\<not> (\<forall>u\<in>set (utf16 ''dra''). isWhiteSpace u)"
    by (simp add: string_eval)
  have blanks: "\<forall>u\<in>set (utf16 ''   ''). isWhiteSpace u"
    by (simp add: string_eval)
  have run: "visibleSet toLowerCase_ascii
     [\<lparr>name = utf16 ''Action'', url = utf16 ''https://bestsimilar.com/tag/action''\<rparr>,
      \<lparr>name = utf16 ''Drama'', url = utf16 ''https://bestsimilar.com/tag/drama''\<rparr>]
     (utf16 ''dra'')
   = [\<lparr>name = utf16 ''Drama'', url = utf16 ''https://bestsimilar.com/tag/drama''\<rparr>]"
    by (simp add: string_eval)
  have "visibleSet toLowerCase_ascii
     [\<lparr>name = utf16 ''Action'', url = utf16 ''https://bestsimilar.com/tag/action''\<rparr>,
      \<lparr>name = utf16 ''Drama'', url = utf16 ''https://bestsimilar.com/tag/drama''\<rparr>]
     (utf16 ''dra'')
   = (if \<forall>u\<in>set (utf16 ''dra''). isWhiteSpace u then
     [\<lparr>name = utf16 ''Action'', url = utf16 ''https://bestsimilar.com/tag/action''\<rparr>,
      \<lparr>name = utf16 ''Drama'', url = utf16 ''https://bestsimilar.com/tag/drama''\<rparr>]
     else filter (\<lambda>tag. \<exists>pre post.
       toLowerCase_ascii (name tag) = pre @ toLowerCase_ascii (utf16 ''dra'') @ post)
     [\<lparr>name = utf16 ''Action'', url = utf16 ''https://bestsimilar.com/tag/action''\<rparr>,
      \<lparr>name = utf16 ''Drama'', url = utf16 ''https://bestsimilar.com/tag/drama''\<rparr>])"
    using visibleSet_filters_by_name [of toLowerCase_ascii
     "[\<lparr>name = utf16 ''Action'', url = utf16 ''https://bestsimilar.com/tag/action''\<rparr>,
      \<lparr>name = utf16 ''Drama'', url = utf16 ''https://bestsimilar.com/tag/drama''\<rparr>]"
     "utf16 ''dra''"] by (rule conjunct1)
  also have "\<dots> = filter (\<lambda>tag. \<exists>pre post.
       toLowerCase_ascii (name tag) = pre @ toLowerCase_ascii (utf16 ''dra'') @ post)
     [\<lparr>name = utf16 ''Action'', url = utf16 ''https://bestsimilar.com/tag/action''\<rparr>,
      \<lparr>name = utf16 ''Drama'', url = utf16 ''https://bestsimilar.com/tag/drama''\<rparr>]"
    using letters by (rule if_not_P)
  finally have one: "filter (\<lambda>tag. \<exists>pre post.
       toLowerCase_ascii (name tag) = pre @ toLowerCase_ascii (utf16 ''dra'') @ post)
     [\<lparr>name = utf16 ''Action'', url = utf16 ''https://bestsimilar.com/tag/action''\<rparr>,
      \<lparr>name = utf16 ''Drama'', url = utf16 ''https://bestsimilar.com/tag/drama''\<rparr>]
   = [\<lparr>name = utf16 ''Drama'', url = utf16 ''https://bestsimilar.com/tag/drama''\<rparr>]"
    using run by simp
  have "visibleSet toLowerCase_ascii
     [\<lparr>name = utf16 ''Action'', url = utf16 ''https://bestsimilar.com/tag/action''\<rparr>,
      \<lparr>name = utf16 ''Drama'', url = utf16 ''https://bestsimilar.com/tag/drama''\<rparr>]
     (utf16 ''   '')
   = (if \<forall>u\<in>set (utf16 ''   ''). isWhiteSpace u then
     [\<lparr>name = utf16 ''Action'', url = utf16 ''https://bestsimilar.com/tag/action''\<rparr>,
      \<lparr>name = utf16 ''Drama'', url = utf16 ''https://bestsimilar.com/tag/drama''\<rparr>]
     else filter (\<lambda>tag. \<exists>pre post.
       toLowerCase_ascii (name tag) = pre @ toLowerCase_ascii (utf16 ''   '') @ post)
     [\<lparr>name = utf16 ''Action'', url = utf16 ''https://bestsimilar.com/tag/action''\<rparr>,
      \<lparr>name = utf16 ''Drama'', url = utf16 ''https://bestsimilar.com/tag/drama''\<rparr>])"
    using visibleSet_filters_by_name [of toLowerCase_ascii
     "[\<lparr>name = utf16 ''Action'', url = utf16 ''https://bestsimilar.com/tag/action''\<rparr>,
      \<lparr>name = utf16 ''Drama'', url = utf16 ''https://bestsimilar.com/tag/drama''\<rparr>]"
     "utf16 ''   ''"] by (rule conjunct1)
  also have "\<dots> = [\<lparr>name = utf16 ''Action'', url = utf16 ''https://bestsimilar.com/tag/action''\<rparr>,
      \<lparr>name = utf16 ''Drama'', url = utf16 ''https://bestsimilar.com/tag/drama''\<rparr>]"
    using blanks by (rule if_P)
  finally have two: "visibleSet toLowerCase_ascii
     [\<lparr>name = utf16 ''Action'', url = utf16 ''https://bestsimilar.com/tag/action''\<rparr>,
      \<lparr>name = utf16 ''Drama'', url = utf16 ''https://bestsimilar.com/tag/drama''\<rparr>]
     (utf16 ''   '')
   = [\<lparr>name = utf16 ''Action'', url = utf16 ''https://bestsimilar.com/tag/action''\<rparr>,
      \<lparr>name = utf16 ''Drama'', url = utf16 ''https://bestsimilar.com/tag/drama''\<rparr>]" .
  from one two show ?thesis by (rule conjI)
qed

text \<open>
  C6. Running the filter effect again on its own result changes nothing; what it
  stores depends on the catalog and the query only, not on the rest of the state; the
  stored sequence is a subsequence of the catalog, namely the catalog restricted to the
  indices whose record the query admits.
\<close>

theorem filterEffect_pure_idempotent:
  "filterEffect lower (filterEffect lower s) = filterEffect lower s
   \<and> (tags s = tags s' \<and> searchTerm s = searchTerm s'
        \<longrightarrow> filteredTags (filterEffect lower s) = filteredTags (filterEffect lower s'))
   \<and> subseq (filteredTags (filterEffect lower s)) (tags s)
   \<and> filteredTags (filterEffect lower s) =
       nths (tags s) {i. i < length (tags s) \<and>
         (js_trim (searchTerm s) = []
          \<or> js_includes (lower (name (tags s ! i))) (lower (searchTerm s)))}"
proof (intro conjI impI)
  show "filterEffect lower (filterEffect lower s) = filterEffect lower s"
    by (simp add: filterEffect_def)
  show "filteredTags (filterEffect lower s) = filteredTags (filterEffect lower s')"
    if "tags s = tags s' \<and> searchTerm s = searchTerm s'"
    using that by (simp add: filterEffect_def)
  show "subseq (filteredTags (filterEffect lower s)) (tags s)"
    by (simp add: filterEffect_def visibleSet_def)
  show "filteredTags (filterEffect lower s) =
       nths (tags s) {i. i < length (tags s) \<and>
         (js_trim (searchTerm s) = []
          \<or> js_includes (lower (name (tags s ! i))) (lower (searchTerm s)))}"
  proof (cases "js_trim (searchTerm s) = []")
    case True
    then show ?thesis by (simp add: filterEffect_def visibleSet_def nths_all)
  next
    case False
    then show ?thesis by (simp add: filterEffect_def visibleSet_def filter_eq_nths)
  qed
qed

text \<open>
  The theorem at two states with the same catalog and the same query \<^verbatim>\<open>dra\<close>, which
  differ in every other cell.
\<close>

theorem filterEffect_pure_idempotent_witness:
  "filteredTags (filterEffect toLowerCase_ascii
      \<lparr>tags = [\<lparr>name = utf16 ''Action'', url = utf16 ''https://bestsimilar.com/tag/action''\<rparr>,
               \<lparr>name = utf16 ''Drama'', url = utf16 ''https://bestsimilar.com/tag/drama''\<rparr>],
       filteredTags = [], searchTerm = utf16 ''dra'', isOpen = True, isLoading = False,
       console = [], onTagSelect = []\<rparr>)
   = filteredTags (filterEffect toLowerCase_ascii
      \<lparr>tags = [\<lparr>name = utf16 ''Action'', url = utf16 ''https://bestsimilar.com/tag/action''\<rparr>,
               \<lparr>name = utf16 ''Drama'', url = utf16 ''https://bestsimilar.com/tag/drama''\<rparr>],
       filteredTags = [\<lparr>name = utf16 ''Drama'', url = utf16 ''https://bestsimilar.com/tag/drama''\<rparr>],
       searchTerm = utf16 ''dra'', isOpen = False, isLoading = True,
       console = [Failed_to_load_tags], onTagSelect = []\<rparr>)"
  using filterEffect_pure_idempotent [of toLowerCase_ascii
      "\<lparr>tags = [\<lparr>name = utf16 ''Action'', url = utf16 ''https://bestsimilar.com/tag/action''\<rparr>,
               \<lparr>name = utf16 ''Drama'', url = utf16 ''https://bestsimilar.com/tag/drama''\<rparr>],
       filteredTags = [], searchTerm = utf16 ''dra'', isOpen = True, isLoading = False,
       console = [], onTagSelect = []\<rparr>"
      "\<lparr>tags = [\<lparr>name = utf16 ''Action'', url = utf16 ''https://bestsimilar.com/tag/action''\<rparr>,
               \<lparr>name = utf16 ''Drama'', url = utf16 ''https://bestsimilar.com/tag/drama''\<rparr>],
       filteredTags = [\<lparr>name = utf16 ''Drama'', url = utf16 ''https://bestsimilar.com/tag/drama''\<rparr>],
       searchTerm = utf16 ''dra'', isOpen = False, isLoading = True,
       console = [Failed_to_load_tags], onTagSelect = []\<rparr>"]
  by simp

text \<open>
  C10. For every query whose trimmed form is not empty the names are matched against
  the lowercased query as it was typed, untrimmed. So, when lowercasing neither adds
  nor removes white space, a query that holds a white space code unit matches no name
  without white space; with the ASCII lowercasing, the
  query \<^verbatim>\<open>dra\<close> with a blank on each side, whose trimmed form is \<^verbatim>\<open>dra\<close>, yields no
  match on the catalog Action, Drama.
\<close>

theorem visibleSet_matches_untrimmed_query:
  "(js_trim q \<noteq> [] \<longrightarrow>
      visibleSet lower c q =
        filter (\<lambda>tag. \<exists>pre post. lower (name tag) = pre @ lower q @ post) c)
   \<and> ((\<forall>s. (\<exists>u\<in>set (lower s). isWhiteSpace u) \<longleftrightarrow> (\<exists>u\<in>set s. isWhiteSpace u))
        \<and> js_trim q \<noteq> [] \<and> (\<exists>u\<in>set q. isWhiteSpace u)
        \<and> (\<forall>v\<in>set (name tag). \<not> isWhiteSpace v)
      \<longrightarrow> tag \<notin> set (visibleSet lower c q))
   \<and> js_trim (utf16 '' dra '') = utf16 ''dra''
   \<and> visibleSet toLowerCase_ascii
       [\<lparr>name = utf16 ''Action'', url = utf16 ''https://bestsimilar.com/tag/action''\<rparr>,
        \<lparr>name = utf16 ''Drama'', url = utf16 ''https://bestsimilar.com/tag/drama''\<rparr>]
       (utf16 '' dra '') = []"
proof (intro conjI impI)
  show "visibleSet lower c q =
        filter (\<lambda>tag. \<exists>pre post. lower (name tag) = pre @ lower q @ post) c"
    if "js_trim q \<noteq> []"
    using that by (simp add: visibleSet_def js_includes_iff)
  show "tag \<notin> set (visibleSet lower c q)"
    if h: "(\<forall>s. (\<exists>u\<in>set (lower s). isWhiteSpace u) \<longleftrightarrow> (\<exists>u\<in>set s. isWhiteSpace u))
        \<and> js_trim q \<noteq> [] \<and> (\<exists>u\<in>set q. isWhiteSpace u)
        \<and> (\<forall>v\<in>set (name tag). \<not> isWhiteSpace v)"
  proof -
    from h have keeps:
      "\<forall>s. (\<exists>u\<in>set (lower s). isWhiteSpace u) \<longleftrightarrow> (\<exists>u\<in>set s. isWhiteSpace u)"
      by (elim conjE)
    from h obtain u where u: "u \<in> set q" "isWhiteSpace u" by blast
    from h have none: "\<forall>v\<in>set (name tag). \<not> isWhiteSpace v" by (elim conjE)
    from keeps u none have "\<not> js_includes (lower (name tag)) (lower q)"
      by (rule whitespace_query_no_match)
    moreover from h have "js_trim q \<noteq> []" by (elim conjE)
    ultimately show ?thesis by (simp add: visibleSet_def)
  qed
qed (simp_all add: string_eval)

theorem visibleSet_matches_untrimmed_query_witness:
  "\<lparr>name = utf16 ''Drama'', url = utf16 ''https://bestsimilar.com/tag/drama''\<rparr>
     \<notin> set (visibleSet toLowerCase_ascii
       [\<lparr>name = utf16 ''Action'', url = utf16 ''https://bestsimilar.com/tag/action''\<rparr>,
        \<lparr>name = utf16 ''Drama'', url = utf16 ''https://bestsimilar.com/tag/drama''\<rparr>]
       (utf16 '' dra ''))
   \<and> \<lparr>name = utf16 ''Drama'', url = utf16 ''https://bestsimilar.com/tag/drama''\<rparr>
     \<in> set (visibleSet toLowerCase_ascii
       [\<lparr>name = utf16 ''Action'', url = utf16 ''https://bestsimilar.com/tag/action''\<rparr>,
        \<lparr>name = utf16 ''Drama'', url = utf16 ''https://bestsimilar.com/tag/drama''\<rparr>]
       (js_trim (utf16 '' dra '')))"
proof -
  have h: "(\<forall>s. (\<exists>u\<in>set (toLowerCase_ascii s). isWhiteSpace u)
          \<longleftrightarrow> (\<exists>u\<in>set s. isWhiteSpace u))
      \<and> js_trim (utf16 '' dra '') \<noteq> []
      \<and> (\<exists>u\<in>set (utf16 '' dra ''). isWhiteSpace u)
      \<and> (\<forall>v\<in>set (name \<lparr>name = utf16 ''Drama'',
            url = utf16 ''https://bestsimilar.com/tag/drama''\<rparr>). \<not> isWhiteSpace v)"
    by (simp add: toLowerCase_ascii_ws) (simp add: string_eval)
  have trimmed: "\<lparr>name = utf16 ''Drama'', url = utf16 ''https://bestsimilar.com/tag/drama''\<rparr>
     \<in> set (visibleSet toLowerCase_ascii
       [\<lparr>name = utf16 ''Action'', url = utf16 ''https://bestsimilar.com/tag/action''\<rparr>,
        \<lparr>name = utf16 ''Drama'', url = utf16 ''https://bestsimilar.com/tag/drama''\<rparr>]
       (js_trim (utf16 '' dra '')))"
    by (simp add: string_eval)
  from visibleSet_matches_untrimmed_query [of "utf16 '' dra ''"
      toLowerCase_ascii
      "[\<lparr>name = utf16 ''Action'', url = utf16 ''https://bestsimilar.com/tag/action''\<rparr>,
        \<lparr>name = utf16 ''Drama'', url = utf16 ''https://bestsimilar.com/tag/drama''\<rparr>]"
      "\<lparr>name = utf16 ''Drama'', url = utf16 ''https://bestsimilar.com/tag/drama''\<rparr>"]
    h trimmed
  show ?thesis by blast
qed

section \<open>Selecting a tag\<close>

text \<open>
  C3. A click on a tag calls \<^verbatim>\<open>onTagSelect\<close> exactly once, with the derived path and
  the name of the tag; after it the dialog is closed and the query is the empty string,
  whatever the query was.
\<close>

theorem handleTagClick_calls_back_once:
  "onTagSelect (handleTagClick tag s) = onTagSelect s @ [(tagPath tag, name tag)]
   \<and> \<not> isOpen (handleTagClick tag s)
   \<and> searchTerm (handleTagClick tag s) = []"
  by (simp add: handleTagClick_def)

text \<open>
  The theorem at a click on Action while the query is \<^verbatim>\<open>act\<close>: the one call
  is \<^verbatim>\<open>("/tag/action", "Action")\<close>.
\<close>

theorem handleTagClick_calls_back_once_witness:
  "onTagSelect (handleTagClick
      \<lparr>name = utf16 ''Action'', url = utf16 ''https://bestsimilar.com/tag/action''\<rparr>
      \<lparr>tags = [\<lparr>name = utf16 ''Action'', url = utf16 ''https://bestsimilar.com/tag/action''\<rparr>,
               \<lparr>name = utf16 ''Drama'', url = utf16 ''https://bestsimilar.com/tag/drama''\<rparr>],
       filteredTags = [\<lparr>name = utf16 ''Action'', url = utf16 ''https://bestsimilar.com/tag/action''\<rparr>],
       searchTerm = utf16 ''act'', isOpen = True, isLoading = False,
       console = [], onTagSelect = []\<rparr>)
   = [(utf16 ''/tag/action'', utf16 ''Action'')]"
proof -
  have "tagPath \<lparr>name = utf16 ''Action'', url = utf16 ''https://bestsimilar.com/tag/action''\<rparr>
      = utf16 ''/tag/action''"
    by (simp add: string_eval)
  with handleTagClick_calls_back_once
    [of "\<lparr>name = utf16 ''Action'', url = utf16 ''https://bestsimilar.com/tag/action''\<rparr>"
      "\<lparr>tags = [\<lparr>name = utf16 ''Action'', url = utf16 ''https://bestsimilar.com/tag/action''\<rparr>,
               \<lparr>name = utf16 ''Drama'', url = utf16 ''https://bestsimilar.com/tag/drama''\<rparr>],
       filteredTags = [\<lparr>name = utf16 ''Action'', url = utf16 ''https://bestsimilar.com/tag/action''\<rparr>],
       searchTerm = utf16 ''act'', isOpen = True, isLoading = False,
       console = [], onTagSelect = []\<rparr>"]
  show ?thesis by simp
qed

text \<open>
  C4, as amended. Whenever the dialog goes from open to closed by the selection of a
  tag, the query is reset to the empty string and the loading flag is false: a tag can
  be clicked only while the dialog is open and no load is in flight.
\<close>

theorem selection_resets_query:
  "clickable s tag \<Longrightarrow>
     isOpen s \<and> \<not> isOpen (handleTagClick tag s)
     \<and> searchTerm (handleTagClick tag s) = []
     \<and> \<not> isLoading (handleTagClick tag s)"
  by (simp add: clickable_def handleTagClick_def)

text \<open>
  The theorem at a click on Drama, visible under the query \<^verbatim>\<open>dra\<close>.
\<close>

theorem selection_resets_query_witness:
  "searchTerm (handleTagClick
      \<lparr>name = utf16 ''Drama'', url = utf16 ''https://bestsimilar.com/tag/drama''\<rparr>
      \<lparr>tags = [\<lparr>name = utf16 ''Action'', url = utf16 ''https://bestsimilar.com/tag/action''\<rparr>,
               \<lparr>name = utf16 ''Drama'', url = utf16 ''https://bestsimilar.com/tag/drama''\<rparr>],
       filteredTags = [\<lparr>name = utf16 ''Drama'', url = utf16 ''https://bestsimilar.com/tag/drama''\<rparr>],
       searchTerm = utf16 ''dra'', isOpen = True, isLoading = False,
       console = [], onTagSelect = []\<rparr>) = []
   \<and> \<not> isLoading (handleTagClick
      \<lparr>name = utf16 ''Drama'', url = utf16 ''https://bestsimilar.com/tag/drama''\<rparr>
      \<lparr>tags = [\<lparr>name = utf16 ''Action'', url = utf16 ''https://bestsimilar.com/tag/action''\<rparr>,
               \<lparr>name = utf16 ''Drama'', url = utf16 ''https://bestsimilar.com/tag/drama''\<rparr>],
       filteredTags = [\<lparr>name = utf16 ''Drama'', url = utf16 ''https://bestsimilar.com/tag/drama''\<rparr>],
       searchTerm = utf16 ''dra'', isOpen = True, isLoading = False,
       console = [], onTagSelect = []\<rparr>)"
proof -
  have "clickable
      \<lparr>tags = [\<lparr>name = utf16 ''Action'', url = utf16 ''https://bestsimilar.com/tag/action''\<rparr>,
               \<lparr>name = utf16 ''Drama'', url = utf16 ''https://bestsimilar.com/tag/drama''\<rparr>],
       filteredTags = [\<lparr>name = utf16 ''Drama'', url = utf16 ''https://bestsimilar.com/tag/drama''\<rparr>],
       searchTerm = utf16 ''dra'', isOpen = True, isLoading = False,
       console = [], onTagSelect = []\<rparr>
      \<lparr>name = utf16 ''Drama'', url = utf16 ''https://bestsimilar.com/tag/drama''\<rparr>"
    by (simp add: clickable_def)
  from selection_resets_query [OF this] show ?thesis by blast
qed

text \<open>
  C4 as it was stated, for a close by any cause, fails at a dismissal: the dialog is
  opened, the load begins, the user types \<^verbatim>\<open>dra\<close> and dismisses the dialog. It is closed,
  the query is still \<^verbatim>\<open>dra\<close>, the loading flag is still true, and the query is there
  when the dialog is opened again.
\<close>

theorem dismissal_keeps_query:
  "isOpen (setSearchTerm (utf16 ''dra'') (loadTags_begin (setIsOpen True initial)))
   \<and> \<not> isOpen (setIsOpen False
        (setSearchTerm (utf16 ''dra'') (loadTags_begin (setIsOpen True initial))))
   \<and> searchTerm (setIsOpen False
        (setSearchTerm (utf16 ''dra'') (loadTags_begin (setIsOpen True initial))))
      = utf16 ''dra''
   \<and> utf16 ''dra'' \<noteq> []
   \<and> isLoading (setIsOpen False
        (setSearchTerm (utf16 ''dra'') (loadTags_begin (setIsOpen True initial))))
   \<and> searchTerm (setIsOpen True (setIsOpen False
        (setSearchTerm (utf16 ''dra'') (loadTags_begin (setIsOpen True initial)))))
      = utf16 ''dra''"
  by (simp add: state_eval utf16_def)

section \<open>A failed load\<close>

text \<open>
  C5, as amended. For every load, if the fetch throws, the response is not a success
  or decoding it fails, the catalog is left as it was before the load (so empty when it
  was empty), one diagnostic is written to the console, the loading flag goes from true
  to false, and no exception leaves the loader.
\<close>

theorem loadTags_failure_reported:
  "load_failed r \<Longrightarrow>
     isLoading (loadTags_begin s)
     \<and> (\<exists>s' d. loadTags r s = Inr s' \<and> tags s' = tags s
          \<and> console s' = console s @ [d] \<and> \<not> isLoading s')"
proof -
  assume "load_failed r"
  from loadTags_settle_failed [OF this, of "loadTags_begin s"]
  show ?thesis by (auto simp: loadTags_def loadTags_begin_def)
qed

text \<open>
  The theorem at the first opening of the dialog with a response that is not a
  success: the catalog stays empty.
\<close>

theorem loadTags_failure_reported_witness:
  "load_failed ResponseNotOk
   \<and> (\<exists>s' d. loadTags ResponseNotOk (setIsOpen True initial) = Inr s' \<and> tags s' = []
        \<and> console s' = [d] \<and> \<not> isLoading s')"
proof -
  have failed: "load_failed ResponseNotOk" by (simp add: load_failed_def)
  from loadTags_failure_reported [OF failed, of "setIsOpen True initial"] failed
  show ?thesis by (simp add: initial_def setIsOpen_def)
qed

text \<open>
  C5 as it was stated, with the catalog left empty, fails on a second load: the first
  load succeeds with the catalog Action, the dialog is dismissed and opened again, and
  the response of the second load is not a success. The catalog is still Action.
\<close>

theorem failed_reload_catalog_not_empty:
  "loadTags (ResponseOk (JsonResolved
       [\<lparr>name = utf16 ''Action'', url = utf16 ''https://bestsimilar.com/tag/action''\<rparr>]))
     (setIsOpen True initial)
   = Inr \<lparr>tags = [\<lparr>name = utf16 ''Action'', url = utf16 ''https://bestsimilar.com/tag/action''\<rparr>],
       filteredTags = [\<lparr>name = utf16 ''Action'', url = utf16 ''https://bestsimilar.com/tag/action''\<rparr>],
       searchTerm = [], isOpen = True, isLoading = False, console = [], onTagSelect = []\<rparr>
   \<and> loadTags ResponseNotOk
     (setIsOpen True (setIsOpen False
       \<lparr>tags = [\<lparr>name = utf16 ''Action'', url = utf16 ''https://bestsimilar.com/tag/action''\<rparr>],
       filteredTags = [\<lparr>name = utf16 ''Action'', url = utf16 ''https://bestsimilar.com/tag/action''\<rparr>],
       searchTerm = [], isOpen = True, isLoading = False, console = [], onTagSelect = []\<rparr>))
   = Inr \<lparr>tags = [\<lparr>name = utf16 ''Action'', url = utf16 ''https://bestsimilar.com/tag/action''\<rparr>],
       filteredTags = [\<lparr>name = utf16 ''Action'', url = utf16 ''https://bestsimilar.com/tag/action''\<rparr>],
       searchTerm = [], isOpen = True, isLoading = False, console = [Failed_to_load_tags],
       onTagSelect = []\<rparr>"
  by (simp add: state_eval)

text \<open>
  C9. On any failed load the catalog and the visible set are what they were when the
  fetch settled, and what they were before the load: they are not cleared.
\<close>

theorem loadTags_failure_keeps_catalog:
  "load_failed r \<Longrightarrow>
     (\<exists>s'. loadTags_settle r s = Inr s' \<and> tags s' = tags s
        \<and> filteredTags s' = filteredTags s)
     \<and> (\<exists>s'. loadTags r s = Inr s' \<and> tags s' = tags s
        \<and> filteredTags s' = filteredTags s)"
proof -
  assume failed: "load_failed r"
  from loadTags_settle_failed [OF failed, of s]
    loadTags_settle_failed [OF failed, of "loadTags_begin s"]
  show ?thesis by (auto simp: loadTags_def loadTags_begin_def)
qed

text \<open>
  The theorem at a dialog opened again after a load of the catalog Drama, with a fetch
  that throws: the catalog and the visible set are still Drama.
\<close>

theorem loadTags_failure_keeps_catalog_witness:
  "\<exists>s'. loadTags (FetchRejected (JsError (utf16 ''Failed to fetch'')))
       (setIsOpen True
         \<lparr>tags = [\<lparr>name = utf16 ''Drama'', url = utf16 ''https://bestsimilar.com/tag/drama''\<rparr>],
          filteredTags = [\<lparr>name = utf16 ''Drama'', url = utf16 ''https://bestsimilar.com/tag/drama''\<rparr>],
          searchTerm = [], isOpen = False, isLoading = False, console = [], onTagSelect = []\<rparr>)
     = Inr s'
     \<and> tags s' = [\<lparr>name = utf16 ''Drama'', url = utf16 ''https://bestsimilar.com/tag/drama''\<rparr>]
     \<and> filteredTags s' = [\<lparr>name = utf16 ''Drama'', url = utf16 ''https://bestsimilar.com/tag/drama''\<rparr>]"
proof -
  have failed: "load_failed (FetchRejected (JsError (utf16 ''Failed to fetch'')))"
    by (simp add: load_failed_def)
  from loadTags_failure_keeps_catalog [OF failed, of "setIsOpen True
         \<lparr>tags = [\<lparr>name = utf16 ''Drama'', url = utf16 ''https://bestsimilar.com/tag/drama''\<rparr>],
          filteredTags = [\<lparr>name = utf16 ''Drama'', url = utf16 ''https://bestsimilar.com/tag/drama''\<rparr>],
          searchTerm = [], isOpen = False, isLoading = False, console = [], onTagSelect = []\<rparr>"]
  show ?thesis by (simp add: setIsOpen_def)
qed

section \<open>The two token sets\<close>

text \<open>
  C7, as amended. Every token name of \<^verbatim>\<open>.dark\<close> is a token name of \<^verbatim>\<open>:root\<close>, which
  has one more, \<^verbatim>\<open>--radius\<close>; no name is declared twice in a block; every token of
  \<^verbatim>\<open>.dark\<close> but \<^verbatim>\<open>--destructive\<close> has the same value in both blocks; and
  \<^verbatim>\<open>--destructive\<close> has hue 0 in both, with saturation 84.2% and lightness 60.2% in
  \<^verbatim>\<open>:root\<close>, saturation 62.8% and lightness 30.6% in \<^verbatim>\<open>.dark\<close>.
\<close>

theorem tokens_compared:
  "token_names root_tokens = insert ''--radius'' (token_names dark_tokens)
   \<and> ''--radius'' \<notin> token_names dark_tokens
   \<and> distinct (map fst root_tokens) \<and> distinct (map fst dark_tokens)
   \<and> (\<forall>n\<in>token_names dark_tokens.
        n \<noteq> ''--destructive'' \<longrightarrow> token_value dark_tokens n = token_value root_tokens n)
   \<and> token_value root_tokens ''--destructive'' = Some (HSL 0 84.2 60.2)
   \<and> token_value dark_tokens ''--destructive'' = Some (HSL 0 62.8 30.6)"
proof (intro conjI)
  show "token_names root_tokens = insert ''--radius'' (token_names dark_tokens)"
    by (simp add: token_eval insert_commute)
  show "''--radius'' \<notin> token_names dark_tokens"
    by (simp add: token_eval)
  show "distinct (map fst root_tokens)" by (simp add: root_tokens_def)
  show "distinct (map fst dark_tokens)" by (simp add: dark_tokens_def)
  show "\<forall>n\<in>token_names dark_tokens.
        n \<noteq> ''--destructive'' \<longrightarrow> token_value dark_tokens n = token_value root_tokens n"
    by (simp add: token_eval)
  show "token_value root_tokens ''--destructive'' = Some (HSL 0 84.2 60.2)"
    by (simp add: token_eval)
  show "token_value dark_tokens ''--destructive'' = Some (HSL 0 62.8 30.6)"
    by (simp add: token_eval)
qed

text \<open>
  The theorem at \<^verbatim>\<open>--primary\<close>, whose value in \<^verbatim>\<open>.dark\<close> is that of \<^verbatim>\<open>:root\<close>.
\<close>

theorem tokens_compared_witness:
  "token_value dark_tokens ''--primary'' = Some (HSL 217 91 60)"
proof -
  have same: "\<forall>n\<in>token_names dark_tokens.
      n \<noteq> ''--destructive'' \<longrightarrow> token_value dark_tokens n = token_value root_tokens n"
    using tokens_compared by (elim conjE)
  have "''--primary'' \<in> token_names dark_tokens" by (simp add: token_eval)
  with same have "''--primary'' \<noteq> ''--destructive''
      \<longrightarrow> token_value dark_tokens ''--primary'' = token_value root_tokens ''--primary''"
    by (rule bspec)
  moreover have "''--primary'' \<noteq> ''--destructive''" by simp
  ultimately have "token_value dark_tokens ''--primary'' = token_value root_tokens ''--primary''"
    by (rule mp)
  also have "\<dots> = Some (HSL 217 91 60)" by (simp add: token_eval)
  finally show ?thesis .
qed

text \<open>
  C7 as it was stated fails twice: \<^verbatim>\<open>--radius\<close> is a token of \<^verbatim>\<open>:root\<close> and not
  of \<^verbatim>\<open>.dark\<close>, and the two values of \<^verbatim>\<open>--destructive\<close> differ in saturation as well
  as in lightness.
\<close>

theorem tokens_differ:
  "''--radius'' \<in> token_names root_tokens
   \<and> ''--radius'' \<notin> token_names dark_tokens
   \<and> token_value root_tokens ''--destructive'' = Some (HSL 0 84.2 60.2)
   \<and> token_value dark_tokens ''--destructive'' = Some (HSL 0 62.8 30.6)
   \<and> (84.2 :: rat) \<noteq> 62.8"
  by (simp add: token_eval)

end
